theory Spec2Isabelle
  imports Main "HOL-Library.AList"
begin

section \<open>Values, failures and the observable state\<close>

text \<open>
  The connector of \<^verbatim>\<open>data_connector.py\<close> is glue code around external loaders
  (pandas, sqlite3, pandas-gbq). The embedding keeps every branch, every \<^verbatim>\<open>print\<close>,
  every \<^verbatim>\<open>raise\<close> and every call of an external collaborator of the source; the
  collaborators themselves are the fields of a \<open>world\<close> record.

  Python values that travel through the keyword bag \<^verbatim>\<open>**kwargs\<close>.
\<close>

datatype pyval = PyNone | PyBool bool | PyInt int | PyStr string

type_synonym kwargs = "(string \<times> pyval) list"

text \<open>Exceptions: the class and the message (\<^verbatim>\<open>str(e)\<close>).\<close>

datatype exn_kind =
    ImportError | ValueError | AttributeError | OperationalError
  | FileNotFoundError | OtherError string

datatype exn = Exn (kind: exn_kind) (message: string)

text \<open>The Table of the spec: a pandas DataFrame, with \<^verbatim>\<open>df.shape\<close>.\<close>

record table =
  column_names :: "string list"
  row_values :: "pyval list list"

definition shape :: "table \<Rightarrow> nat \<times> nat" where
  "shape df = (length (row_values df), length (column_names df))"

text \<open>
  What a loader hands back: a DataFrame, or some other object (named by its type) that
  has no \<^verbatim>\<open>shape\<close> attribute, such as the \<^verbatim>\<open>dict\<close> of frames that
  \<^verbatim>\<open>pandas.read_excel\<close> returns for \<^verbatim>\<open>sheet_name=None\<close>.
\<close>

datatype pyobj = DataFrame table | PyObject string

text \<open>
  The status lines the source prints, one constructor per \<^verbatim>\<open>print\<close> statement, with
  the values interpolated into it (the rendering of the line is left out).
\<close>

datatype status =
    Reading_csv string
  | Reading_excel string
  | Sheet pyval
  | Reading_json string
  | Reading_sqlite_table string string
  | Executing_sqlite_query string
  | Query_preview string bool
  | Found_tables nat "string list"
  | Connecting_mysql string int string
  | Connecting_postgresql string int string
  | Connecting_bigquery string
  | Using_credentials string
  | Executing_query string bool
  | Reading_table string
  | Loaded nat nat
  | Error_reading_csv string
  | Error_reading_excel string
  | Error_reading_json string
  | Error_reading_sqlite_table string
  | Error_executing_sqlite_query string
  | Error_listing_sqlite_tables string
  | Error_reading_mysql string
  | Error_reading_postgresql string
  | Error_reading_bigquery string
  | Auto_detecting string
  | Default_table_warning string

text \<open>Calls of the external collaborators (\<^verbatim>\<open>sqlite3.connect\<close> and the loaders), with
  the arguments the source passes.\<close>

datatype call =
    Sqlite3_connect string
  | Pd_read_csv string kwargs
  | Pd_read_excel string pyval kwargs
  | Pd_read_json string kwargs
  | Pd_read_sql_conn string string kwargs
  | Cursor_execute string string
  | Pd_read_sql_uri string string kwargs
  | Read_gbq string string kwargs

datatype event =
    Print status
  | Call call
  | SetEnv string string
  | Commit string
  | Rollback string

text \<open>
  The process state a call can change: what was printed and called, in order; the
  process environment \<^verbatim>\<open>os.environ\<close>; the SQLite connections that are open.
\<close>

record state =
  log :: "event list"
  environ :: "(string \<times> string) list"
  open_conns :: "string list"

definition emit :: "event \<Rightarrow> state \<Rightarrow> state" where
  "emit ev s = s\<lparr>log := log s @ [ev]\<rparr>"

text \<open>
  The external collaborators. Each loader either raises or returns; whether an optional
  driver can be imported is a flag. \<open>w_read_gbq\<close> reads the process environment, where
  its credentials are looked up.
\<close>

record world =
  pymysql_available :: bool
  psycopg2_available :: bool
  pandas_gbq_available :: bool
  w_read_csv :: "string \<Rightarrow> kwargs \<Rightarrow> exn + pyobj"
  w_read_excel :: "string \<Rightarrow> pyval \<Rightarrow> kwargs \<Rightarrow> exn + pyobj"
  w_read_json :: "string \<Rightarrow> kwargs \<Rightarrow> exn + pyobj"
  w_sqlite3_connect :: "string \<Rightarrow> exn + unit"
  w_read_sql_conn :: "string \<Rightarrow> string \<Rightarrow> kwargs \<Rightarrow> exn + pyobj"
  w_cursor_execute :: "string \<Rightarrow> string \<Rightarrow> exn + string list"
  w_read_sql_uri :: "string \<Rightarrow> string \<Rightarrow> kwargs \<Rightarrow> exn + pyobj"
  w_read_gbq :: "(string \<times> string) list \<Rightarrow> string \<Rightarrow> string \<Rightarrow> kwargs \<Rightarrow> exn + pyobj"

section \<open>Python primitives used by the source\<close>

text \<open>Truth value of an optional string argument (\<^verbatim>\<open>if query:\<close>): None and the empty
  string are false.\<close>

definition truthy :: "string option \<Rightarrow> string option" where
  "truthy a = (case a of None \<Rightarrow> None | Some x \<Rightarrow> if x = [] then None else Some x)"

definition truthy_val :: "pyval \<Rightarrow> bool" where
  "truthy_val v = (case v of PyNone \<Rightarrow> False | PyBool b \<Rightarrow> b
                   | PyInt i \<Rightarrow> i \<noteq> 0 | PyStr x \<Rightarrow> x \<noteq> [])"

text \<open>Decimal rendering of integers, for f-strings.\<close>

definition digit :: "nat \<Rightarrow> char" where
  "digit d = char_of (48 + d)"

function show_nat :: "nat \<Rightarrow> string" where
  "show_nat n = (if n < 10 then [digit n] else show_nat (n div 10) @ [digit (n mod 10)])"
  by pat_completeness auto
termination
  by (relation "measure id") auto

declare show_nat.simps [simp del]

definition show_int :: "int \<Rightarrow> string" where
  "show_int i = (if i < 0 then CHR ''-'' # show_nat (nat (- i)) else show_nat (nat i))"

definition py_str :: "pyval \<Rightarrow> string" where
  "py_str v = (case v of PyNone \<Rightarrow> ''None'' | PyBool b \<Rightarrow> (if b then ''True'' else ''False'')
               | PyInt i \<Rightarrow> show_int i | PyStr x \<Rightarrow> x)"

text \<open>\<^verbatim>\<open>str.lower\<close>: the letters A to Z are mapped to a to z. Paths are taken as ASCII
  text; other characters are left as they are.\<close>

definition lower_char :: "char \<Rightarrow> char" where
  "lower_char c = (let n = (of_char c :: nat) in
                   if 65 \<le> n \<and> n \<le> 90 then char_of (n + 32) else c)"

definition lower :: "string \<Rightarrow> string" where
  "lower x = map lower_char x"

text \<open>\<^verbatim>\<open>str.split(sep)\<close> for a one-character separator.\<close>

fun split_on :: "char \<Rightarrow> string \<Rightarrow> string list" where
  "split_on c [] = [[]]"
| "split_on c (x # xs) =
     (if x = c then [] # split_on c xs
      else (case split_on c xs of [] \<Rightarrow> [[x]] | u # us \<Rightarrow> (x # u) # us))"

text \<open>\<^verbatim>\<open>str.rfind(c)\<close>: the last index of \<open>c\<close>, None for Python's -1.\<close>

fun rfind :: "string \<Rightarrow> char \<Rightarrow> nat option" where
  "rfind [] c = None"
| "rfind (x # xs) c =
     (case rfind xs c of Some i \<Rightarrow> Some (Suc i)
      | None \<Rightarrow> if x = c then Some 0 else None)"

text \<open>
  \<^verbatim>\<open>pathlib.Path(path).name\<close> on a POSIX path: the last of the components left after
  splitting at \<^verbatim>\<open>/\<close> and dropping empty components and \<^verbatim>\<open>.\<close>; empty if none is left.
\<close>

definition path_name :: "string \<Rightarrow> string" where
  "path_name p =
     (case filter (\<lambda>x. x \<noteq> [] \<and> x \<noteq> ''.'') (split_on CHR ''/'' p) of
        [] \<Rightarrow> []
      | x # xs \<Rightarrow> last (x # xs))"

text \<open>
  \<^verbatim>\<open>Path.suffix\<close>: from the last dot of the name on, when that dot is neither the first
  nor the last character of the name; empty otherwise (\<^verbatim>\<open>i = name.rfind('.')\<close>, then
  \<^verbatim>\<open>name[i:] if 0 < i < len(name) - 1 else ''\<close>, as pathlib defines it up to
  Python 3.13).
\<close>

definition path_suffix :: "string \<Rightarrow> string" where
  "path_suffix p =
     (let name = path_name p in
      case rfind name CHR ''.'' of
        None \<Rightarrow> []
      | Some i \<Rightarrow> if 0 < i \<and> i < length name - 1 then drop i name else [])"

section \<open>Control structure shared by the operations\<close>

text \<open>
  Every operation maps the state before the call to the outcome (\<open>Inl\<close> the exception
  raised, \<open>Inr\<close> the value returned) and the state after it. \<open>and_then\<close> is sequencing:
  an exception skips the rest of the block.
\<close>

definition and_then ::
  "(exn + 'a) \<times> state \<Rightarrow> ('a \<Rightarrow> state \<Rightarrow> (exn + 'b) \<times> state) \<Rightarrow> (exn + 'b) \<times> state" where
  "and_then r f = (case r of (Inl e, s) \<Rightarrow> (Inl e, s) | (Inr v, s) \<Rightarrow> f v s)"

text \<open>A call of an external loader is logged, then it raises or returns.\<close>

definition call_ext :: "call \<Rightarrow> exn + 'a \<Rightarrow> state \<Rightarrow> (exn + 'a) \<times> state" where
  "call_ext c r s = (r, emit (Call c) s)"

text \<open>
  \<^verbatim>\<open>except Exception as e: print(f"... {str(e)}"); raise\<close>: the line is printed and the
  exception caught is raised again.
\<close>

definition except_print_raise ::
  "(string \<Rightarrow> status) \<Rightarrow> (exn + 'a) \<times> state \<Rightarrow> (exn + 'a) \<times> state" where
  "except_print_raise line r =
     (case r of
        (Inl e, s) \<Rightarrow> (Inl e, emit (Print (line (message e))) s)
      | (Inr v, s) \<Rightarrow> (Inr v, s))"

text \<open>
  \<^verbatim>\<open>print(f"... {df.shape[0]:,} rows and {df.shape[1]} columns"); return df\<close>. Reading
  \<^verbatim>\<open>shape\<close> from an object that has none raises AttributeError.
\<close>

definition no_shape_message :: "string \<Rightarrow> string" where
  "no_shape_message tn =
     CHR 0x27 # tn @ CHR 0x27 # '' object has no attribute 'shape'' @ [CHR 0x27]"

definition shape_of :: "pyobj \<Rightarrow> exn + nat \<times> nat" where
  "shape_of obj =
     (case obj of
        DataFrame df \<Rightarrow> Inr (shape df)
      | PyObject tn \<Rightarrow> Inl (Exn AttributeError (no_shape_message tn)))"

definition report_loaded :: "pyobj \<Rightarrow> state \<Rightarrow> (exn + pyobj) \<times> state" where
  "report_loaded df s =
     (case shape_of df of
        Inl e \<Rightarrow> (Inl e, s)
      | Inr (r, c) \<Rightarrow> (Inr df, emit (Print (Loaded r c)) s))"

text \<open>
  \<^verbatim>\<open>with sqlite3.connect(path) as conn: body\<close>. \<^verbatim>\<open>sqlite3.connect\<close> may raise; if it
  returns, a connection to \<open>path\<close> is open. Leaving the block runs the connection's
  context manager, which in Python's \<^verbatim>\<open>sqlite3\<close> module commits the pending transaction
  when the body returned and rolls it back when the body raised; it does not close the
  connection. The source calls \<^verbatim>\<open>close\<close> nowhere, so no step of the model removes a
  connection from \<open>open_conns\<close>. (Reclaiming of unreachable objects by the interpreter is
  not part of the model.)
\<close>

definition with_connect ::
  "world \<Rightarrow> string \<Rightarrow> (state \<Rightarrow> (exn + 'a) \<times> state) \<Rightarrow> state \<Rightarrow> (exn + 'a) \<times> state" where
  "with_connect w path body s =
     (case w_sqlite3_connect w path of
        Inl e \<Rightarrow> (Inl e, emit (Call (Sqlite3_connect path)) s)
      | Inr _ \<Rightarrow>
          (case body ((emit (Call (Sqlite3_connect path)) s)\<lparr>open_conns := path # open_conns s\<rparr>) of
             (Inl e, s') \<Rightarrow> (Inl e, emit (Rollback path) s')
           | (Inr v, s') \<Rightarrow> (Inr v, emit (Commit path) s')))"

text \<open>
  \<^verbatim>\<open>os.environ[k] = v\<close>: the variable is set for the rest of the process; a value with
  a NUL character is refused with ValueError.
\<close>

definition putenv :: "string \<Rightarrow> string \<Rightarrow> state \<Rightarrow> (exn + unit) \<times> state" where
  "putenv k v s =
     (if CHR 0x00 \<in> set v then (Inl (Exn ValueError ''embedded null byte''), s)
      else (Inr (), (emit (SetEnv k v) s)\<lparr>environ := AList.update k v (environ s)\<rparr>))"

section \<open>The operations of DataConnector\<close>

definition read_csv :: "world \<Rightarrow> string \<Rightarrow> kwargs \<Rightarrow> state \<Rightarrow> (exn + pyobj) \<times> state" where
  "read_csv w path kw s =
     except_print_raise Error_reading_csv
       (and_then
          (call_ext (Pd_read_csv path kw) (w_read_csv w path kw)
             (emit (Print (Reading_csv path)) s))
          report_loaded)"

text \<open>\<open>sheet_name\<close> is \<open>PyNone\<close> when the caller omits it (the parameter's default); it
  is passed on to the loader as it is.\<close>

definition read_excel ::
  "world \<Rightarrow> string \<Rightarrow> pyval \<Rightarrow> kwargs \<Rightarrow> state \<Rightarrow> (exn + pyobj) \<times> state" where
  "read_excel w path sheet_name kw s =
     except_print_raise Error_reading_excel
       (let s1 = emit (Print (Reading_excel path)) s;
            s2 = (if truthy_val sheet_name then emit (Print (Sheet sheet_name)) s1 else s1)
        in and_then
             (call_ext (Pd_read_excel path sheet_name kw) (w_read_excel w path sheet_name kw) s2)
             report_loaded)"

definition read_json :: "world \<Rightarrow> string \<Rightarrow> kwargs \<Rightarrow> state \<Rightarrow> (exn + pyobj) \<times> state" where
  "read_json w path kw s =
     except_print_raise Error_reading_json
       (and_then
          (call_ext (Pd_read_json path kw) (w_read_json w path kw)
             (emit (Print (Reading_json path)) s))
          report_loaded)"

definition read_sqlite_table ::
  "world \<Rightarrow> string \<Rightarrow> string \<Rightarrow> kwargs \<Rightarrow> state \<Rightarrow> (exn + pyobj) \<times> state" where
  "read_sqlite_table w path table kw s =
     except_print_raise Error_reading_sqlite_table
       (let sql = ''SELECT * FROM '' @ table in
        and_then
          (with_connect w path
             (call_ext (Pd_read_sql_conn path sql kw) (w_read_sql_conn w path sql kw))
             (emit (Print (Reading_sqlite_table table path)) s))
          report_loaded)"

definition read_sqlite_query ::
  "world \<Rightarrow> string \<Rightarrow> string \<Rightarrow> kwargs \<Rightarrow> state \<Rightarrow> (exn + pyobj) \<times> state" where
  "read_sqlite_query w path query kw s =
     except_print_raise Error_executing_sqlite_query
       (let s1 = emit (Print (Executing_sqlite_query path)) s;
            s2 = emit (Print (Query_preview (take 100 query) (100 < length query))) s1
        in and_then
             (with_connect w path
                (call_ext (Pd_read_sql_conn path query kw) (w_read_sql_conn w path query kw))
                s2)
             report_loaded)"

definition sqlite_master_query :: string where
  "sqlite_master_query = ''SELECT name FROM sqlite_master WHERE type='table';''"

definition list_sqlite_tables ::
  "world \<Rightarrow> string \<Rightarrow> state \<Rightarrow> (exn + string list) \<times> state" where
  "list_sqlite_tables w path s =
     except_print_raise Error_listing_sqlite_tables
       (and_then
          (with_connect w path
             (call_ext (Cursor_execute path sqlite_master_query)
                (w_cursor_execute w path sqlite_master_query))
             s)
          (\<lambda>tables s'. (Inr tables, emit (Print (Found_tables (length tables) tables)) s')))"

text \<open>The connection strings of the two networked readers.\<close>

definition mysql_connection_string ::
  "string \<Rightarrow> string \<Rightarrow> string \<Rightarrow> int \<Rightarrow> string \<Rightarrow> string" where
  "mysql_connection_string username password host port database =
     ''mysql+pymysql://'' @ username @ '':'' @ password @ ''@'' @ host @ '':''
       @ show_int port @ ''/'' @ database"

definition postgresql_connection_string ::
  "string \<Rightarrow> string \<Rightarrow> string \<Rightarrow> int \<Rightarrow> string \<Rightarrow> string" where
  "postgresql_connection_string username password host port database =
     ''postgresql://'' @ username @ '':'' @ password @ ''@'' @ host @ '':''
       @ show_int port @ ''/'' @ database"

definition mysql_import_message :: string where
  "mysql_import_message =
     ''PyMySQL is required for MySQL connections. Install with: pip install pymysql''"

definition postgresql_import_message :: string where
  "postgresql_import_message =
     ''psycopg2 is required for PostgreSQL connections. Install with: pip install psycopg2-binary''"

definition bigquery_import_message :: string where
  "bigquery_import_message =
     ''pandas-gbq is required for BigQuery connections. Install with: pip install pandas-gbq''"

definition table_or_query_message :: string where
  "table_or_query_message = ''Either 'table' or 'query' parameter must be provided''"

definition query_or_table_id_message :: string where
  "query_or_table_id_message = ''Either 'query' or 'table_id' parameter must be provided''"

text \<open>
  The branch on \<^verbatim>\<open>query\<close> and \<^verbatim>\<open>table\<close> that \<^verbatim>\<open>read_mysql\<close> and
  \<^verbatim>\<open>read_postgresql\<close> share word for word (lines 186-196 and 229-239).
\<close>

definition read_sql_uri ::
  "world \<Rightarrow> string \<Rightarrow> string option \<Rightarrow> string option \<Rightarrow> kwargs \<Rightarrow> state
     \<Rightarrow> (exn + pyobj) \<times> state" where
  "read_sql_uri w connection_string table query kw s =
     (case truthy query of
        Some q \<Rightarrow>
          and_then
            (call_ext (Pd_read_sql_uri q connection_string kw)
               (w_read_sql_uri w q connection_string kw)
               (emit (Print (Executing_query (take 100 q) (100 < length q))) s))
            report_loaded
      | None \<Rightarrow>
          (case truthy table of
             Some t \<Rightarrow>
               (let sql = ''SELECT * FROM '' @ t in
                and_then
                  (call_ext (Pd_read_sql_uri sql connection_string kw)
                     (w_read_sql_uri w sql connection_string kw)
                     (emit (Print (Reading_table t)) s))
                  report_loaded)
           | None \<Rightarrow> (Inl (Exn ValueError table_or_query_message), s)))"

definition read_mysql ::
  "world \<Rightarrow> string \<Rightarrow> string \<Rightarrow> string \<Rightarrow> string \<Rightarrow> string option \<Rightarrow> string option
     \<Rightarrow> int \<Rightarrow> kwargs \<Rightarrow> state \<Rightarrow> (exn + pyobj) \<times> state" where
  "read_mysql w host database username password table query port kw s =
     (if \<not> pymysql_available w then (Inl (Exn ImportError mysql_import_message), s)
      else
        except_print_raise Error_reading_mysql
          (read_sql_uri w (mysql_connection_string username password host port database)
             table query kw
             (emit (Print (Connecting_mysql host port database)) s)))"

definition read_postgresql ::
  "world \<Rightarrow> string \<Rightarrow> string \<Rightarrow> string \<Rightarrow> string \<Rightarrow> string option \<Rightarrow> string option
     \<Rightarrow> int \<Rightarrow> kwargs \<Rightarrow> state \<Rightarrow> (exn + pyobj) \<times> state" where
  "read_postgresql w host database username password table query port kw s =
     (if \<not> psycopg2_available w then (Inl (Exn ImportError postgresql_import_message), s)
      else
        except_print_raise Error_reading_postgresql
          (read_sql_uri w (postgresql_connection_string username password host port database)
             table query kw
             (emit (Print (Connecting_postgresql host port database)) s)))"

definition credentials_variable :: string where
  "credentials_variable = ''GOOGLE_APPLICATION_CREDENTIALS''"

definition read_bigquery ::
  "world \<Rightarrow> string \<Rightarrow> string option \<Rightarrow> string option \<Rightarrow> string option \<Rightarrow> kwargs \<Rightarrow> state
     \<Rightarrow> (exn + pyobj) \<times> state" where
  "read_bigquery w project_id query table_id credentials_path kw s =
     (if \<not> pandas_gbq_available w then (Inl (Exn ImportError bigquery_import_message), s)
      else
        except_print_raise Error_reading_bigquery
          (and_then
             (case truthy credentials_path of
                None \<Rightarrow> (Inr (), emit (Print (Connecting_bigquery project_id)) s)
              | Some cp \<Rightarrow>
                  and_then
                    (putenv credentials_variable cp
                       (emit (Print (Connecting_bigquery project_id)) s))
                    (\<lambda>_ s2. (Inr (), emit (Print (Using_credentials cp)) s2)))
             (\<lambda>_ s3.
                case truthy query of
                  Some q \<Rightarrow>
                    and_then
                      (call_ext (Read_gbq q project_id kw)
                         (w_read_gbq w (environ s3) q project_id kw)
                         (emit (Print (Executing_query (take 100 q) (100 < length q))) s3))
                      report_loaded
                | None \<Rightarrow>
                    (case truthy table_id of
                       Some t \<Rightarrow>
                         (let q = ''SELECT * FROM `'' @ t @ ''`'' in
                          and_then
                            (call_ext (Read_gbq q project_id kw)
                               (w_read_gbq w (environ s3) q project_id kw)
                               (emit (Print (Reading_table t)) s3))
                            report_loaded)
                     | None \<Rightarrow> (Inl (Exn ValueError query_or_table_id_message), s3)))))"

text \<open>
  \<^verbatim>\<open>self.read_excel(path, **kwargs)\<close>: a key \<^verbatim>\<open>sheet_name\<close> of the bag binds the
  parameter of that name, the other keys stay in the bag.
\<close>

definition excel_sheet_name :: "kwargs \<Rightarrow> pyval" where
  "excel_sheet_name kw = (case map_of kw ''sheet_name'' of None \<Rightarrow> PyNone | Some v \<Rightarrow> v)"

definition no_tables_message :: string where
  "no_tables_message = ''No tables found in SQLite database''"

definition unsupported_message :: "string \<Rightarrow> string" where
  "unsupported_message extension = ''Unsupported file format: '' @ extension"

text \<open>Lines 311-320: the branch of \<^verbatim>\<open>auto_detect_and_read\<close> for SQLite files. A table
  name popped from the bag is interpolated into the SQL text as \<^verbatim>\<open>str\<close> renders it.\<close>

definition auto_detect_sqlite ::
  "world \<Rightarrow> string \<Rightarrow> kwargs \<Rightarrow> state \<Rightarrow> (exn + pyobj) \<times> state" where
  "auto_detect_sqlite w path kw s =
     and_then (list_sqlite_tables w path s)
       (\<lambda>tables s1.
          case tables of
            [] \<Rightarrow> (Inl (Exn ValueError no_tables_message), s1)
          | first # _ \<Rightarrow>
              (case map_of kw ''table'' of
                 Some t \<Rightarrow> read_sqlite_table w path (py_str t) (AList.delete ''table'' kw) s1
               | None \<Rightarrow>
                   read_sqlite_table w path first kw
                     (emit (Print (Default_table_warning first)) s1)))"

definition auto_detect_and_read ::
  "world \<Rightarrow> string \<Rightarrow> kwargs \<Rightarrow> state \<Rightarrow> (exn + pyobj) \<times> state" where
  "auto_detect_and_read w path kw s =
     (let extension = lower (path_suffix path);
          s1 = emit (Print (Auto_detecting extension)) s
      in if extension = ''.csv'' then read_csv w path kw s1
         else if extension \<in> set [''.xlsx'', ''.xls''] then
           read_excel w path (excel_sheet_name kw) (AList.delete ''sheet_name'' kw) s1
         else if extension = ''.json'' then read_json w path kw s1
         else if extension \<in> set [''.db'', ''.sqlite'', ''.sqlite3''] then
           auto_detect_sqlite w path kw s1
         else (Inl (Exn ValueError (unsupported_message extension)), s1))"

section \<open>Reading outcomes and logs\<close>

definition raised_kind :: "exn + 'a \<Rightarrow> exn_kind option" where
  "raised_kind r = (case r of Inl e \<Rightarrow> Some (kind e) | Inr _ \<Rightarrow> None)"

text \<open>The loader calls recorded in a log, in order.\<close>

fun calls :: "event list \<Rightarrow> call list" where
  "calls [] = []"
| "calls (Call c # es) = c # calls es"
| "calls (e # es) = calls es"

text \<open>What an operation added to the log, and the external calls it made.\<close>

definition new_events :: "state \<Rightarrow> state \<Rightarrow> event list" where
  "new_events s s' = drop (length (log s)) (log s')"

definition calls_made :: "state \<Rightarrow> (exn + 'a) \<times> state \<Rightarrow> call list" where
  "calls_made s r = calls (new_events s (snd r))"

text \<open>The events of a log that precede its first external call.\<close>

fun before_calls :: "event list \<Rightarrow> event list" where
  "before_calls [] = []"
| "before_calls (Call c # es) = []"
| "before_calls (e # es) = e # before_calls es"

text \<open>Python's \<^verbatim>\<open>needle in text\<close> on strings.\<close>

fun starts_with :: "string \<Rightarrow> string \<Rightarrow> bool" where
  "starts_with xs [] = True"
| "starts_with [] (y # ys) = False"
| "starts_with (x # xs) (y # ys) = (x = y \<and> starts_with xs ys)"

fun contains :: "string \<Rightarrow> string \<Rightarrow> bool" where
  "contains [] needle = (needle = [])"
| "contains (x # xs) needle = (starts_with (x # xs) needle \<or> contains xs needle)"

section \<open>Concrete worlds\<close>

definition initial_state :: state where
  "initial_state = \<lparr>log = [], environ = [], open_conns = []\<rparr>"

definition users_table :: table where
  "users_table =
     \<lparr>column_names = [''id'', ''name''],
      row_values = [[PyInt 1, PyStr ''ann''], [PyInt 2, PyStr ''bob'']]\<rparr>"

definition orders_table :: table where
  "orders_table =
     \<lparr>column_names = [''id'', ''user_id'', ''total''],
      row_values = [[PyInt 10, PyInt 1, PyInt 250]]\<rparr>"

text \<open>
  \<^verbatim>\<open>pandas.read_excel\<close> over a store of workbooks (each a list of named sheets), as
  pandas documents its \<^verbatim>\<open>sheet_name\<close> parameter: an integer is a sheet position, a
  string a sheet name, \<^verbatim>\<open>None\<close> asks for all sheets and yields a \<^verbatim>\<open>dict\<close> of
  frames; the parameter's own default is position 0, the first sheet.
\<close>

definition excel_default_sheet :: pyval where
  "excel_default_sheet = PyInt 0"

definition sheet_at :: "(string \<times> table) list \<Rightarrow> int \<Rightarrow> exn + pyobj" where
  "sheet_at sheets i =
     (if 0 \<le> i \<and> nat i < length sheets then Inr (DataFrame (snd (sheets ! nat i)))
      else Inl (Exn ValueError ''Worksheet index is invalid''))"

definition pandas_read_excel ::
  "(string \<Rightarrow> (string \<times> table) list option) \<Rightarrow> string \<Rightarrow> pyval \<Rightarrow> kwargs \<Rightarrow> exn + pyobj" where
  "pandas_read_excel books path sheet_name kw =
     (case books path of
        None \<Rightarrow> Inl (Exn FileNotFoundError path)
      | Some sheets \<Rightarrow>
          (case sheet_name of
             PyNone \<Rightarrow> Inr (PyObject ''dict'')
           | PyInt i \<Rightarrow> sheet_at sheets i
           | PyBool b \<Rightarrow> sheet_at sheets (if b then 1 else 0)
           | PyStr n \<Rightarrow>
               (case map_of sheets n of
                  Some t \<Rightarrow> Inr (DataFrame t)
                | None \<Rightarrow> Inl (Exn ValueError ''Worksheet not found''))))"

definition demo_books :: "string \<Rightarrow> (string \<times> table) list option" where
  "demo_books path =
     (if path = ''book.xlsx'' then Some [(''Users'', users_table), (''Orders'', orders_table)]
      else None)"

text \<open>
  A world with all drivers installed, a workbook \<^verbatim>\<open>book.xlsx\<close>, a CSV and a JSON
  file, a SQLite database \<^verbatim>\<open>app.db\<close> with the tables users and orders, an empty
  database \<^verbatim>\<open>empty.db\<close>, a SQL server with the same two tables, and a BigQuery
  service that answers only when the credentials variable is set.
\<close>

definition demo_sql :: "string \<Rightarrow> exn + pyobj" where
  "demo_sql sql =
     (if sql = ''SELECT * FROM users'' then Inr (DataFrame users_table)
      else if sql = ''SELECT * FROM orders'' then Inr (DataFrame orders_table)
      else Inl (Exn OperationalError ''syntax error''))"

definition demo_world :: world where
  "demo_world =
     \<lparr>pymysql_available = True,
      psycopg2_available = True,
      pandas_gbq_available = True,
      w_read_csv = (\<lambda>path kw.
         if path = ''Data/Report.CSV'' then Inr (DataFrame users_table)
         else Inl (Exn FileNotFoundError path)),
      w_read_excel = pandas_read_excel demo_books,
      w_read_json = (\<lambda>path kw.
         if path = ''orders.json'' then Inr (DataFrame orders_table)
         else Inl (Exn FileNotFoundError path)),
      w_sqlite3_connect = (\<lambda>path.
         if path = ''app.db'' \<or> path = ''empty.db'' then Inr ()
         else Inl (Exn OperationalError ''unable to open database file'')),
      w_read_sql_conn = (\<lambda>path sql kw.
         if path = ''app.db'' then demo_sql sql
         else Inl (Exn OperationalError ''no such table'')),
      w_cursor_execute = (\<lambda>path sql.
         if path = ''app.db'' then Inr [''users'', ''orders''] else Inr []),
      w_read_sql_uri = (\<lambda>sql uri kw. demo_sql sql),
      w_read_gbq = (\<lambda>env query project kw.
         case map_of env credentials_variable of
           None \<Rightarrow> Inl (Exn (OtherError ''DefaultCredentialsError'') ''no credentials'')
         | Some _ \<Rightarrow> Inr (DataFrame users_table))\<rparr>"

text \<open>The same world without the optional drivers.\<close>

definition bare_world :: world where
  "bare_world =
     demo_world\<lparr>pymysql_available := False, psycopg2_available := False,
                 pandas_gbq_available := False\<rparr>"



text \<open>A credentials path that \<^verbatim>\<open>os.environ\<close> takes: none at all, or one without NUL.\<close>

definition accepted_by_environ :: "string option \<Rightarrow> bool" where
  "accepted_by_environ credentials_path =
     (case credentials_path of None \<Rightarrow> True | Some cp \<Rightarrow> CHR 0x00 \<notin> set cp)"

section \<open>Auxiliary facts\<close>

lemmas flow_defs = and_then_def call_ext_def except_print_raise_def report_loaded_def
  with_connect_def emit_def

lemma calls_append: "calls (xs @ ys) = calls xs @ calls ys"
  by (induction xs rule: calls.induct) simp_all

lemma before_calls_no_call: "calls xs = [] \<Longrightarrow> before_calls (xs @ ys) = xs @ before_calls ys"
  by (induction xs rule: calls.induct) simp_all

text \<open>The path and number primitives on some inputs.\<close>

lemma path_suffix_examples:
  "path_suffix ''Data/Report.CSV'' = ''.CSV''"
  "path_suffix ''a/b.tar.gz/'' = ''.gz''"
  "path_suffix ''.bashrc'' = []"
  "path_suffix ''a/..'' = []"
  "path_suffix ''foo.'' = []"
  "path_suffix ''a//b/./c.db'' = ''.db''"
  "path_suffix ''dir.d/file'' = []"
  "path_suffix [] = []"
  "path_suffix ''/'' = []"
  "path_name ''a/b.tar.gz/'' = ''b.tar.gz''"
  "lower ''.SQLite3'' = ''.sqlite3''"
  "show_int 3306 = ''3306''"
  "show_int (- 15) = ''-15''"
  by code_simp+

section \<open>Missing drivers\<close>

text \<open>
  C5. When the optional driver of \<^verbatim>\<open>read_mysql\<close>, \<^verbatim>\<open>read_postgresql\<close> or
  \<^verbatim>\<open>read_bigquery\<close> cannot be imported, the operation raises ImportError and does
  nothing else (the state is unchanged). ImportError is a class of its own, not the
  OperationalError with which a loader reports a failed connection, and each message
  names the missing package and the \<^verbatim>\<open>pip install\<close> command that provides it.
\<close>

theorem missing_driver_error:
  "(\<not> pymysql_available w \<longrightarrow>
      read_mysql w host database username password table query port kw s
        = (Inl (Exn ImportError mysql_import_message), s))
   \<and> (\<not> psycopg2_available w \<longrightarrow>
      read_postgresql w host database username password table query port kw s
        = (Inl (Exn ImportError postgresql_import_message), s))
   \<and> (\<not> pandas_gbq_available w \<longrightarrow>
      read_bigquery w project_id query table_id credentials_path kw s
        = (Inl (Exn ImportError bigquery_import_message), s))
   \<and> ImportError \<noteq> OperationalError
   \<and> contains mysql_import_message ''PyMySQL''
   \<and> contains mysql_import_message ''pip install pymysql''
   \<and> contains postgresql_import_message ''psycopg2''
   \<and> contains postgresql_import_message ''pip install psycopg2-binary''
   \<and> contains bigquery_import_message ''pandas-gbq''
   \<and> contains bigquery_import_message ''pip install pandas-gbq''"
proof -
  have m: "contains mysql_import_message ''PyMySQL''"
      "contains mysql_import_message ''pip install pymysql''"
    by (simp_all add: mysql_import_message_def)
  have p: "contains postgresql_import_message ''psycopg2''"
      "contains postgresql_import_message ''pip install psycopg2-binary''"
    by (simp_all add: postgresql_import_message_def)
  have b: "contains bigquery_import_message ''pandas-gbq''"
      "contains bigquery_import_message ''pip install pandas-gbq''"
    by (simp_all add: bigquery_import_message_def)
  show ?thesis
    using m p b by (simp add: read_mysql_def read_postgresql_def read_bigquery_def)
qed

theorem missing_driver_error_witness:
  "read_mysql bare_world ''db.example'' ''shop'' ''ann'' ''pw'' (Some ''users'') None 3306 []
       initial_state
     = (Inl (Exn ImportError mysql_import_message), initial_state)
   \<and> read_postgresql bare_world ''db.example'' ''shop'' ''ann'' ''pw'' (Some ''users'') None 5432 []
       initial_state
     = (Inl (Exn ImportError postgresql_import_message), initial_state)
   \<and> read_bigquery bare_world ''proj'' (Some ''SELECT 1'') None None [] initial_state
     = (Inl (Exn ImportError bigquery_import_message), initial_state)"
proof -
  have a: "\<not> pymysql_available bare_world" "\<not> psycopg2_available bare_world"
      "\<not> pandas_gbq_available bare_world"
    by (simp_all add: bare_world_def)
  show ?thesis
    using a
      missing_driver_error [where w = bare_world and host = "''db.example''"
        and database = "''shop''" and username = "''ann''" and password = "''pw''"
        and table = "Some ''users''" and query = None and port = 3306 and kw = "[]"
        and s = initial_state]
      missing_driver_error [where w = bare_world and host = "''db.example''"
        and database = "''shop''" and username = "''ann''" and password = "''pw''"
        and table = "Some ''users''" and query = None and port = 5432 and kw = "[]"
        and s = initial_state]
      missing_driver_error [where w = bare_world and query = "Some ''SELECT 1''"
        and project_id = "''proj''" and table_id = None and credentials_path = None
        and kw = "[]" and s = initial_state]
    by simp
qed

section \<open>Validation of the arguments of the networked readers\<close>

text \<open>
  C10. In \<^verbatim>\<open>read_mysql\<close>, \<^verbatim>\<open>read_postgresql\<close> and \<^verbatim>\<open>read_bigquery\<close> the import
  of the driver comes before the check of the arguments: without the driver the call
  raises ImportError even when neither a table nor a query is given, and a call that
  raises ValueError has found its driver.
\<close>

theorem driver_check_precedes_validation:
  "(\<not> pymysql_available w \<longrightarrow>
      fst (read_mysql w host database username password None None port kw s)
        = Inl (Exn ImportError mysql_import_message))
   \<and> (\<not> psycopg2_available w \<longrightarrow>
      fst (read_postgresql w host database username password None None port kw s)
        = Inl (Exn ImportError postgresql_import_message))
   \<and> (\<not> pandas_gbq_available w \<longrightarrow>
      fst (read_bigquery w project_id None None credentials_path kw s)
        = Inl (Exn ImportError bigquery_import_message))
   \<and> (raised_kind (fst (read_mysql w host database username password table query port kw s))
        = Some ValueError \<longrightarrow> pymysql_available w)
   \<and> (raised_kind (fst (read_postgresql w host database username password table query port kw s))
        = Some ValueError \<longrightarrow> psycopg2_available w)
   \<and> (raised_kind (fst (read_bigquery w project_id query table_id credentials_path kw s))
        = Some ValueError \<longrightarrow> pandas_gbq_available w)"
  by (simp add: read_mysql_def read_postgresql_def read_bigquery_def raised_kind_def)

theorem driver_check_precedes_validation_witness:
  "fst (read_mysql bare_world ''db.example'' ''shop'' ''ann'' ''pw'' None None 3306 [] initial_state)
     = Inl (Exn ImportError mysql_import_message)
   \<and> fst (read_postgresql bare_world ''db.example'' ''shop'' ''ann'' ''pw'' None None 5432 []
            initial_state)
     = Inl (Exn ImportError postgresql_import_message)
   \<and> fst (read_bigquery bare_world ''proj'' None None (Some ''/keys/sa.json'') [] initial_state)
     = Inl (Exn ImportError bigquery_import_message)
   \<and> pymysql_available demo_world \<and> psycopg2_available demo_world
   \<and> pandas_gbq_available demo_world"
proof -
  have a: "\<not> pymysql_available bare_world" "\<not> psycopg2_available bare_world"
      "\<not> pandas_gbq_available bare_world"
    by (simp_all add: bare_world_def)
  have m: "raised_kind (fst (read_mysql demo_world ''db.example'' ''shop'' ''ann'' ''pw'' None None
             3306 [] initial_state)) = Some ValueError"
    by (simp add: read_mysql_def read_sql_uri_def demo_world_def truthy_def raised_kind_def
        flow_defs)
  have p: "raised_kind (fst (read_postgresql demo_world ''db.example'' ''shop'' ''ann'' ''pw'' None
             None 5432 [] initial_state)) = Some ValueError"
    by (simp add: read_postgresql_def read_sql_uri_def demo_world_def truthy_def raised_kind_def
        flow_defs)
  have b: "raised_kind (fst (read_bigquery demo_world ''proj'' None None None [] initial_state))
             = Some ValueError"
    by (simp add: read_bigquery_def demo_world_def truthy_def raised_kind_def flow_defs)
  have 1: "fst (read_mysql bare_world ''db.example'' ''shop'' ''ann'' ''pw'' None None 3306 []
              initial_state) = Inl (Exn ImportError mysql_import_message)"
    and 2: "fst (read_postgresql bare_world ''db.example'' ''shop'' ''ann'' ''pw'' None None 5432 []
              initial_state) = Inl (Exn ImportError postgresql_import_message)"
    and 3: "fst (read_bigquery bare_world ''proj'' None None (Some ''/keys/sa.json'') []
              initial_state) = Inl (Exn ImportError bigquery_import_message)"
    using a driver_check_precedes_validation [where w = bare_world] by blast+
  have 4: "pymysql_available demo_world"
    using m driver_check_precedes_validation [where w = demo_world] by blast
  have 5: "psycopg2_available demo_world"
    using p driver_check_precedes_validation [where w = demo_world] by blast
  have 6: "pandas_gbq_available demo_world"
    using b driver_check_precedes_validation [where w = demo_world] by blast
  show ?thesis using 1 2 3 4 5 6 by simp
qed

text \<open>
  C3, as stated: \<^verbatim>\<open>read_mysql\<close> and \<^verbatim>\<open>read_postgresql\<close> with neither table nor
  query raise ValueError. Where the driver is not installed they raise ImportError
  instead.
\<close>

theorem no_table_no_query_counterexample:
  "raised_kind (fst (read_mysql bare_world ''db.example'' ''shop'' ''ann'' ''pw'' None None 3306 []
      initial_state)) \<noteq> Some ValueError
   \<and> raised_kind (fst (read_postgresql bare_world ''db.example'' ''shop'' ''ann'' ''pw'' None None
      5432 [] initial_state)) \<noteq> Some ValueError"
  by (simp add: read_mysql_def read_postgresql_def bare_world_def demo_world_def raised_kind_def)

text \<open>
  C3, amended: with neither table nor query, \<^verbatim>\<open>read_mysql\<close> and
  \<^verbatim>\<open>read_postgresql\<close> never call the loader, so no connection is opened and no query
  issued; they raise ValueError when the driver is installed and ImportError when it is
  not.
\<close>

theorem no_table_no_query:
  "(pymysql_available w \<longrightarrow>
      fst (read_mysql w host database username password None None port kw s)
        = Inl (Exn ValueError table_or_query_message))
   \<and> (\<not> pymysql_available w \<longrightarrow>
      fst (read_mysql w host database username password None None port kw s)
        = Inl (Exn ImportError mysql_import_message))
   \<and> calls (log (snd (read_mysql w host database username password None None port kw s)))
        = calls (log s)
   \<and> (psycopg2_available w \<longrightarrow>
      fst (read_postgresql w host database username password None None port kw s)
        = Inl (Exn ValueError table_or_query_message))
   \<and> (\<not> psycopg2_available w \<longrightarrow>
      fst (read_postgresql w host database username password None None port kw s)
        = Inl (Exn ImportError postgresql_import_message))
   \<and> calls (log (snd (read_postgresql w host database username password None None port kw s)))
        = calls (log s)"
  by (simp add: read_mysql_def read_postgresql_def read_sql_uri_def truthy_def flow_defs
      calls_append)

theorem no_table_no_query_witness:
  "fst (read_mysql demo_world ''db.example'' ''shop'' ''ann'' ''pw'' None None 3306 [] initial_state)
     = Inl (Exn ValueError table_or_query_message)
   \<and> fst (read_mysql bare_world ''db.example'' ''shop'' ''ann'' ''pw'' None None 3306 [] initial_state)
     = Inl (Exn ImportError mysql_import_message)
   \<and> calls (log (snd (read_mysql demo_world ''db.example'' ''shop'' ''ann'' ''pw'' None None 3306 []
        initial_state))) = []
   \<and> fst (read_postgresql demo_world ''db.example'' ''shop'' ''ann'' ''pw'' None None 5432 []
        initial_state)
     = Inl (Exn ValueError table_or_query_message)
   \<and> fst (read_postgresql bare_world ''db.example'' ''shop'' ''ann'' ''pw'' None None 5432 []
        initial_state)
     = Inl (Exn ImportError postgresql_import_message)
   \<and> calls (log (snd (read_postgresql demo_world ''db.example'' ''shop'' ''ann'' ''pw'' None None
        5432 [] initial_state))) = []"
proof -
  have a: "pymysql_available demo_world" "psycopg2_available demo_world"
      "\<not> pymysql_available bare_world" "\<not> psycopg2_available bare_world"
      "calls (log initial_state) = []"
    by (simp_all add: bare_world_def demo_world_def initial_state_def)
  show ?thesis
    using a
      no_table_no_query [where w = demo_world and host = "''db.example''"
        and database = "''shop''" and username = "''ann''" and password = "''pw''"
        and port = 3306 and kw = "[]" and s = initial_state]
      no_table_no_query [where w = demo_world and host = "''db.example''"
        and database = "''shop''" and username = "''ann''" and password = "''pw''"
        and port = 5432 and kw = "[]" and s = initial_state]
      no_table_no_query [where w = bare_world and host = "''db.example''"
        and database = "''shop''" and username = "''ann''" and password = "''pw''"
        and port = 3306 and kw = "[]" and s = initial_state]
      no_table_no_query [where w = bare_world and host = "''db.example''"
        and database = "''shop''" and username = "''ann''" and password = "''pw''"
        and port = 5432 and kw = "[]" and s = initial_state]
    by simp
qed

section \<open>Query and table\<close>

text \<open>
  C4, as stated: whenever a table and a query are both supplied, the query is executed
  and the table does not matter. With the empty string as query, \<^verbatim>\<open>read_mysql\<close>
  executes \<^verbatim>\<open>SELECT * FROM\<close> the table, and another table gives another call.
\<close>

theorem query_precedence_counterexample:
  "calls (log (snd (read_mysql demo_world ''db.example'' ''shop'' ''ann'' ''pw'' (Some ''users'')
       (Some '''') 3306 [] initial_state)))
     = [Pd_read_sql_uri ''SELECT * FROM users''
          (mysql_connection_string ''ann'' ''pw'' ''db.example'' 3306 ''shop'') []]
   \<and> calls (log (snd (read_mysql demo_world ''db.example'' ''shop'' ''ann'' ''pw'' (Some ''orders'')
       (Some '''') 3306 [] initial_state)))
     = [Pd_read_sql_uri ''SELECT * FROM orders''
          (mysql_connection_string ''ann'' ''pw'' ''db.example'' 3306 ''shop'') []]"
  by (simp add: read_mysql_def read_sql_uri_def demo_world_def demo_sql_def truthy_def
      initial_state_def shape_of_def shape_def flow_defs)

text \<open>
  C4, amended: when a table (or table id) is supplied together with a query that is not
  the empty string, the table has no effect on the outcome or on the state after the
  call of \<^verbatim>\<open>read_mysql\<close>, \<^verbatim>\<open>read_postgresql\<close> and \<^verbatim>\<open>read_bigquery\<close>; and
  where the driver is installed (for \<^verbatim>\<open>read_bigquery\<close>, where also the credentials
  path is accepted by \<^verbatim>\<open>os.environ\<close>) the loader is called exactly once, with that
  query.
\<close>

theorem query_precedence:
  "q \<noteq> [] \<Longrightarrow>
   read_mysql w host database username password table (Some q) port kw s
     = read_mysql w host database username password table' (Some q) port kw s
   \<and> (pymysql_available w \<longrightarrow>
        calls (log (snd (read_mysql w host database username password table (Some q) port kw s)))
          = calls (log s)
            @ [Pd_read_sql_uri q (mysql_connection_string username password host port database) kw])
   \<and> read_postgresql w host database username password table (Some q) port kw s
     = read_postgresql w host database username password table' (Some q) port kw s
   \<and> (psycopg2_available w \<longrightarrow>
        calls (log (snd (read_postgresql w host database username password table (Some q) port kw
          s)))
          = calls (log s)
            @ [Pd_read_sql_uri q (postgresql_connection_string username password host port database)
                 kw])
   \<and> read_bigquery w project_id (Some q) table_id credentials_path kw s
     = read_bigquery w project_id (Some q) table_id' credentials_path kw s
   \<and> (pandas_gbq_available w \<and> accepted_by_environ credentials_path \<longrightarrow>
        calls (log (snd (read_bigquery w project_id (Some q) table_id credentials_path kw s)))
          = calls (log s) @ [Read_gbq q project_id kw])"
proof -
  assume q: "q \<noteq> []"
  have my: "read_mysql w host database username password table (Some q) port kw s
     = read_mysql w host database username password table' (Some q) port kw s"
    using q by (simp add: read_mysql_def read_sql_uri_def truthy_def)
  have pg: "read_postgresql w host database username password table (Some q) port kw s
     = read_postgresql w host database username password table' (Some q) port kw s"
    using q by (simp add: read_postgresql_def read_sql_uri_def truthy_def)
  have bq: "read_bigquery w project_id (Some q) table_id credentials_path kw s
     = read_bigquery w project_id (Some q) table_id' credentials_path kw s"
    using q by (simp add: read_bigquery_def truthy_def)
  have myc: "pymysql_available w \<longrightarrow>
        calls (log (snd (read_mysql w host database username password table (Some q) port kw s)))
          = calls (log s)
            @ [Pd_read_sql_uri q (mysql_connection_string username password host port database) kw]"
    using q by (auto simp: read_mysql_def read_sql_uri_def truthy_def flow_defs calls_append
        split: sum.splits prod.splits)
  have pgc: "psycopg2_available w \<longrightarrow>
        calls (log (snd (read_postgresql w host database username password table (Some q) port kw
          s)))
          = calls (log s)
            @ [Pd_read_sql_uri q (postgresql_connection_string username password host port database)
                 kw]"
    using q by (auto simp: read_postgresql_def read_sql_uri_def truthy_def flow_defs calls_append
        split: sum.splits prod.splits)
  have bqc: "pandas_gbq_available w \<and> accepted_by_environ credentials_path \<longrightarrow>
        calls (log (snd (read_bigquery w project_id (Some q) table_id credentials_path kw s)))
          = calls (log s) @ [Read_gbq q project_id kw]"
    using q by (auto simp: read_bigquery_def truthy_def flow_defs putenv_def calls_append
        accepted_by_environ_def split: sum.splits prod.splits option.splits)
  show ?thesis using my pg bq myc pgc bqc by blast
qed


theorem query_precedence_witness:
  "read_mysql demo_world ''db.example'' ''shop'' ''ann'' ''pw'' (Some ''users'')
       (Some ''SELECT * FROM orders'') 3306 [] initial_state
     = read_mysql demo_world ''db.example'' ''shop'' ''ann'' ''pw'' None
         (Some ''SELECT * FROM orders'') 3306 [] initial_state
   \<and> calls (log (snd (read_mysql demo_world ''db.example'' ''shop'' ''ann'' ''pw'' (Some ''users'')
       (Some ''SELECT * FROM orders'') 3306 [] initial_state)))
     = [Pd_read_sql_uri ''SELECT * FROM orders''
          (mysql_connection_string ''ann'' ''pw'' ''db.example'' 3306 ''shop'') []]
   \<and> calls (log (snd (read_bigquery demo_world ''proj'' (Some ''SELECT * FROM orders'')
       (Some ''proj.shop.users'') (Some ''/keys/sa.json'') [] initial_state)))
     = [Read_gbq ''SELECT * FROM orders'' ''proj'' []]"
proof -
  have a: "''SELECT * FROM orders'' \<noteq> []" "pymysql_available demo_world"
      "pandas_gbq_available demo_world" "accepted_by_environ (Some ''/keys/sa.json'')"
      "calls (log initial_state) = []"
    by (simp_all add: demo_world_def accepted_by_environ_def initial_state_def)
  show ?thesis
    using a
      query_precedence [where q = "''SELECT * FROM orders''" and w = demo_world
        and host = "''db.example''" and database = "''shop''" and username = "''ann''"
        and password = "''pw''" and table = "Some ''users''" and table' = None
        and port = 3306 and kw = "[]" and s = initial_state and project_id = "''proj''"
        and table_id = "Some ''proj.shop.users''" and table_id' = None and credentials_path = "Some ''/keys/sa.json''"]
    by auto
qed

section \<open>Projections of the control structure\<close>

lemma starts_with_self: "starts_with xs xs"
  by (induction xs) simp_all

lemma contains_self: "contains xs xs"
  by (cases xs) (simp_all add: starts_with_self)

lemma contains_suffix: "contains (xs @ ys) ys"
  by (induction xs) (simp_all add: contains_self)

lemma fst_except_print_raise: "fst (except_print_raise line r) = fst r"
  by (simp add: except_print_raise_def split: prod.splits sum.splits)

lemma fst_and_then:
  "fst (and_then r f) = (case fst r of Inl e \<Rightarrow> Inl e | Inr v \<Rightarrow> fst (f v (snd r)))"
  by (simp add: and_then_def split: prod.splits sum.splits)

lemma fst_call_ext: "fst (call_ext c r s) = r"
  by (simp add: call_ext_def)

lemma fst_report_loaded:
  "fst (report_loaded df s) = (case shape_of df of Inl e \<Rightarrow> Inl e | Inr _ \<Rightarrow> Inr df)"
  by (simp add: report_loaded_def split: prod.splits sum.splits)

lemma fst_with_connect:
  "fst (with_connect w path body s)
     = (case w_sqlite3_connect w path of
          Inl e \<Rightarrow> Inl e
        | Inr _ \<Rightarrow> fst (body ((emit (Call (Sqlite3_connect path)) s)\<lparr>open_conns := path # open_conns s\<rparr>)))"
  by (simp add: with_connect_def split: prod.splits sum.splits)

lemmas fst_flow = fst_except_print_raise fst_and_then fst_call_ext fst_report_loaded
  fst_with_connect

lemma read_sqlite_table_result:
  "fst (read_sqlite_table w path table kw s) = fst (read_sqlite_table w path table kw s')"
  by (simp add: read_sqlite_table_def fst_flow Let_def split: sum.splits)

lemma read_sqlite_table_log:
  "\<exists>evs. log (snd (read_sqlite_table w path table kw s)) = log s @ evs"
  by (simp add: read_sqlite_table_def flow_defs Let_def split: sum.splits prod.splits)

lemma list_sqlite_tables_log:
  "\<exists>evs. log (snd (list_sqlite_tables w path s)) = log s @ evs"
  by (simp add: list_sqlite_tables_def flow_defs split: sum.splits prod.splits)

section \<open>Auto-detection\<close>

text \<open>
  C6. \<^verbatim>\<open>auto_detect_and_read\<close> looks only at the lower-cased suffix of the path. It
  prints the suffix and then continues as \<^verbatim>\<open>read_csv\<close> for \<^verbatim>\<open>.csv\<close>, as
  \<^verbatim>\<open>read_excel\<close> for \<^verbatim>\<open>.xlsx\<close> and \<^verbatim>\<open>.xls\<close>, as \<^verbatim>\<open>read_json\<close> for
  \<^verbatim>\<open>.json\<close>, and as the SQLite branch for \<^verbatim>\<open>.db\<close>, \<^verbatim>\<open>.sqlite\<close> and
  \<^verbatim>\<open>.sqlite3\<close>; for every other suffix it raises ValueError with the message
  \<^verbatim>\<open>Unsupported file format: \<close> followed by the suffix.
\<close>

theorem auto_detect_dispatch:
  "extension = lower (path_suffix path) \<Longrightarrow> s1 = emit (Print (Auto_detecting extension)) s \<Longrightarrow>
   (extension = ''.csv'' \<longrightarrow> auto_detect_and_read w path kw s = read_csv w path kw s1)
   \<and> (extension = ''.xlsx'' \<or> extension = ''.xls'' \<longrightarrow>
        auto_detect_and_read w path kw s
          = read_excel w path (excel_sheet_name kw) (AList.delete ''sheet_name'' kw) s1)
   \<and> (extension = ''.json'' \<longrightarrow> auto_detect_and_read w path kw s = read_json w path kw s1)
   \<and> (extension = ''.db'' \<or> extension = ''.sqlite'' \<or> extension = ''.sqlite3'' \<longrightarrow>
        auto_detect_and_read w path kw s = auto_detect_sqlite w path kw s1)
   \<and> (extension \<notin> set [''.csv'', ''.xlsx'', ''.xls'', ''.json'', ''.db'', ''.sqlite'', ''.sqlite3''] \<longrightarrow>
        auto_detect_and_read w path kw s
          = (Inl (Exn ValueError (''Unsupported file format: '' @ extension)), s1)
        \<and> contains (''Unsupported file format: '' @ extension) extension)"
  using contains_suffix [of "''Unsupported file format: ''" extension]
  by (simp add: auto_detect_and_read_def unsupported_message_def Let_def)

theorem auto_detect_dispatch_witness:
  "auto_detect_and_read demo_world ''Data/Report.CSV'' [] initial_state
     = read_csv demo_world ''Data/Report.CSV'' [] (emit (Print (Auto_detecting ''.csv'')) initial_state)
   \<and> auto_detect_and_read demo_world ''book.XLSX'' [(''sheet_name'', PyStr ''Orders'')] initial_state
     = read_excel demo_world ''book.XLSX'' (PyStr ''Orders'') []
         (emit (Print (Auto_detecting ''.xlsx'')) initial_state)
   \<and> auto_detect_and_read demo_world ''old/book.xls'' [] initial_state
     = read_excel demo_world ''old/book.xls'' PyNone []
         (emit (Print (Auto_detecting ''.xls'')) initial_state)
   \<and> auto_detect_and_read demo_world ''orders.json'' [] initial_state
     = read_json demo_world ''orders.json'' [] (emit (Print (Auto_detecting ''.json'')) initial_state)
   \<and> auto_detect_and_read demo_world ''app.db'' [] initial_state
     = auto_detect_sqlite demo_world ''app.db'' [] (emit (Print (Auto_detecting ''.db'')) initial_state)
   \<and> auto_detect_and_read demo_world ''app.SQLite'' [] initial_state
     = auto_detect_sqlite demo_world ''app.SQLite'' []
         (emit (Print (Auto_detecting ''.sqlite'')) initial_state)
   \<and> auto_detect_and_read demo_world ''v2/app.sqlite3'' [] initial_state
     = auto_detect_sqlite demo_world ''v2/app.sqlite3'' []
         (emit (Print (Auto_detecting ''.sqlite3'')) initial_state)
   \<and> auto_detect_and_read demo_world ''archive.parquet'' [] initial_state
     = (Inl (Exn ValueError ''Unsupported file format: .parquet''),
        emit (Print (Auto_detecting ''.parquet'')) initial_state)"
proof -
  have e: "lower (path_suffix ''Data/Report.CSV'') = ''.csv''"
      "lower (path_suffix ''book.XLSX'') = ''.xlsx''"
      "lower (path_suffix ''old/book.xls'') = ''.xls''"
      "lower (path_suffix ''orders.json'') = ''.json''"
      "lower (path_suffix ''app.db'') = ''.db''"
      "lower (path_suffix ''app.SQLite'') = ''.sqlite''"
      "lower (path_suffix ''v2/app.sqlite3'') = ''.sqlite3''"
      "lower (path_suffix ''archive.parquet'') = ''.parquet''"
    by code_simp+
  have k: "excel_sheet_name [(''sheet_name'', PyStr ''Orders'')] = PyStr ''Orders''"
      "AList.delete ''sheet_name'' [(''sheet_name'', PyStr ''Orders'')] = []"
      "excel_sheet_name [] = PyNone" "AList.delete ''sheet_name'' [] = []"
    by (simp_all add: excel_sheet_name_def)
  have 1: "auto_detect_and_read demo_world ''Data/Report.CSV'' [] initial_state
     = read_csv demo_world ''Data/Report.CSV'' [] (emit (Print (Auto_detecting ''.csv'')) initial_state)"
    using auto_detect_dispatch [OF e(1) [symmetric] refl] by simp
  have 2: "auto_detect_and_read demo_world ''book.XLSX'' [(''sheet_name'', PyStr ''Orders'')] initial_state
     = read_excel demo_world ''book.XLSX'' (PyStr ''Orders'') []
         (emit (Print (Auto_detecting ''.xlsx'')) initial_state)"
    using auto_detect_dispatch [OF e(2) [symmetric] refl, where kw = "[(''sheet_name'', PyStr ''Orders'')]"] k
    by simp
  have 3: "auto_detect_and_read demo_world ''old/book.xls'' [] initial_state
     = read_excel demo_world ''old/book.xls'' PyNone []
         (emit (Print (Auto_detecting ''.xls'')) initial_state)"
    using auto_detect_dispatch [OF e(3) [symmetric] refl, where kw = "[]"] k by simp
  have 4: "auto_detect_and_read demo_world ''orders.json'' [] initial_state
     = read_json demo_world ''orders.json'' [] (emit (Print (Auto_detecting ''.json'')) initial_state)"
    using auto_detect_dispatch [OF e(4) [symmetric] refl] by simp
  have 5: "auto_detect_and_read demo_world ''app.db'' [] initial_state
     = auto_detect_sqlite demo_world ''app.db'' [] (emit (Print (Auto_detecting ''.db'')) initial_state)"
    using auto_detect_dispatch [OF e(5) [symmetric] refl] by simp
  have 6: "auto_detect_and_read demo_world ''app.SQLite'' [] initial_state
     = auto_detect_sqlite demo_world ''app.SQLite'' []
         (emit (Print (Auto_detecting ''.sqlite'')) initial_state)"
    using auto_detect_dispatch [OF e(6) [symmetric] refl] by simp
  have 7: "auto_detect_and_read demo_world ''v2/app.sqlite3'' [] initial_state
     = auto_detect_sqlite demo_world ''v2/app.sqlite3'' []
         (emit (Print (Auto_detecting ''.sqlite3'')) initial_state)"
    using auto_detect_dispatch [OF e(7) [symmetric] refl] by simp
  have 8: "auto_detect_and_read demo_world ''archive.parquet'' [] initial_state
     = (Inl (Exn ValueError ''Unsupported file format: .parquet''),
        emit (Print (Auto_detecting ''.parquet'')) initial_state)"
    using auto_detect_dispatch [OF e(8) [symmetric] refl] by simp
  show ?thesis using 1 2 3 4 5 6 7 8 by blast
qed

text \<open>
  C7. For a path with a SQLite suffix whose tables can be listed: with no tables,
  \<^verbatim>\<open>auto_detect_and_read\<close> raises ValueError (no tables found); with tables and a
  \<^verbatim>\<open>table\<close> option, it continues as \<^verbatim>\<open>read_sqlite_table\<close> on that table with the
  option removed from the bag; with tables and no such option, it prints the warning
  and continues as \<^verbatim>\<open>read_sqlite_table\<close> on the first table listed, so that it
  returns what \<^verbatim>\<open>read_sqlite_table\<close> returns for that table from any state, and the
  warning is among the lines the call has printed.
\<close>

theorem sqlite_auto_detect:
  "lower (path_suffix path) \<in> {''.db'', ''.sqlite'', ''.sqlite3''} \<Longrightarrow>
   list_sqlite_tables w path (emit (Print (Auto_detecting (lower (path_suffix path)))) s)
     = (Inr tables, s1) \<Longrightarrow>
   (tables = [] \<longrightarrow>
      auto_detect_and_read w path kw s = (Inl (Exn ValueError no_tables_message), s1))
   \<and> (tables \<noteq> [] \<and> map_of kw ''table'' = Some t \<longrightarrow>
      auto_detect_and_read w path kw s
        = read_sqlite_table w path (py_str t) (AList.delete ''table'' kw) s1)
   \<and> (tables = first # others \<and> map_of kw ''table'' = None \<longrightarrow>
      auto_detect_and_read w path kw s
        = read_sqlite_table w path first kw (emit (Print (Default_table_warning first)) s1)
      \<and> fst (auto_detect_and_read w path kw s) = fst (read_sqlite_table w path first kw s')
      \<and> Print (Default_table_warning first)
          \<in> set (new_events s (snd (auto_detect_and_read w path kw s))))"
proof -
  assume ext: "lower (path_suffix path) \<in> {''.db'', ''.sqlite'', ''.sqlite3''}"
    and listing: "list_sqlite_tables w path
       (emit (Print (Auto_detecting (lower (path_suffix path)))) s) = (Inr tables, s1)"
  have branch: "auto_detect_and_read w path kw s
      = auto_detect_sqlite w path kw (emit (Print (Auto_detecting (lower (path_suffix path)))) s)"
    using ext by (auto simp: auto_detect_and_read_def Let_def)
  have none: "tables = [] \<longrightarrow>
      auto_detect_and_read w path kw s = (Inl (Exn ValueError no_tables_message), s1)"
    by (simp add: branch auto_detect_sqlite_def listing and_then_def)
  have named: "tables \<noteq> [] \<and> map_of kw ''table'' = Some t \<longrightarrow>
      auto_detect_and_read w path kw s
        = read_sqlite_table w path (py_str t) (AList.delete ''table'' kw) s1"
    by (cases tables) (simp_all add: branch auto_detect_sqlite_def listing and_then_def)
  have default: "tables = first # others \<and> map_of kw ''table'' = None \<longrightarrow>
      auto_detect_and_read w path kw s
        = read_sqlite_table w path first kw (emit (Print (Default_table_warning first)) s1)"
    by (simp add: branch auto_detect_sqlite_def listing and_then_def)
  have same: "tables = first # others \<and> map_of kw ''table'' = None \<longrightarrow>
      fst (auto_detect_and_read w path kw s) = fst (read_sqlite_table w path first kw s')"
    using default read_sqlite_table_result [of w path first kw _ s'] by simp
  have "\<exists>evs. log s1
      = log (emit (Print (Auto_detecting (lower (path_suffix path)))) s) @ evs"
    using list_sqlite_tables_log
      [of w path "emit (Print (Auto_detecting (lower (path_suffix path)))) s"]
    by (simp add: listing)
  then obtain evs1 where evs1: "log s1 = log s @ evs1"
    by (auto simp: emit_def)
  have "\<exists>evs. log (snd (read_sqlite_table w path first kw
        (emit (Print (Default_table_warning first)) s1)))
      = log (emit (Print (Default_table_warning first)) s1) @ evs"
    by (rule read_sqlite_table_log)
  then obtain evs2 where evs2:
    "log (snd (read_sqlite_table w path first kw (emit (Print (Default_table_warning first)) s1)))
       = log s @ evs1 @ Print (Default_table_warning first) # evs2"
    by (auto simp: evs1 emit_def)
  have warned: "tables = first # others \<and> map_of kw ''table'' = None \<longrightarrow>
      Print (Default_table_warning first)
        \<in> set (new_events s (snd (auto_detect_and_read w path kw s)))"
    using default by (simp add: new_events_def evs2)
  show ?thesis using none named default same warned by blast
qed

theorem sqlite_auto_detect_witness:
  "fst (auto_detect_and_read demo_world ''empty.db'' [] initial_state)
     = Inl (Exn ValueError no_tables_message)
   \<and> fst (auto_detect_and_read demo_world ''app.db'' [(''table'', PyStr ''orders'')] initial_state)
     = fst (read_sqlite_table demo_world ''app.db'' ''orders'' [] initial_state)
   \<and> fst (auto_detect_and_read demo_world ''app.db'' [] initial_state)
     = fst (read_sqlite_table demo_world ''app.db'' ''users'' [] initial_state)
   \<and> fst (read_sqlite_table demo_world ''app.db'' ''users'' [] initial_state)
     = Inr (DataFrame users_table)"
proof -
  have e: "lower (path_suffix ''empty.db'') = ''.db''" "lower (path_suffix ''app.db'') = ''.db''"
    by code_simp+
  have ext: "lower (path_suffix ''empty.db'') \<in> {''.db'', ''.sqlite'', ''.sqlite3''}"
      "lower (path_suffix ''app.db'') \<in> {''.db'', ''.sqlite'', ''.sqlite3''}"
    by (simp_all add: e)
  have l0: "list_sqlite_tables demo_world ''empty.db''
        (emit (Print (Auto_detecting (lower (path_suffix ''empty.db'')))) initial_state)
      = (Inr [], snd (list_sqlite_tables demo_world ''empty.db''
          (emit (Print (Auto_detecting (lower (path_suffix ''empty.db'')))) initial_state)))"
    by (simp add: prod_eq_iff list_sqlite_tables_def demo_world_def fst_flow)
  have l1: "list_sqlite_tables demo_world ''app.db''
        (emit (Print (Auto_detecting (lower (path_suffix ''app.db'')))) initial_state)
      = (Inr [''users'', ''orders''], snd (list_sqlite_tables demo_world ''app.db''
          (emit (Print (Auto_detecting (lower (path_suffix ''app.db'')))) initial_state)))"
    by (simp add: prod_eq_iff list_sqlite_tables_def demo_world_def fst_flow)
  have k: "map_of [(''table'', PyStr ''orders'')] ''table'' = Some (PyStr ''orders'')"
      "AList.delete ''table'' [(''table'', PyStr ''orders'')] = []"
      "py_str (PyStr ''orders'') = ''orders''"
      "map_of ([] :: kwargs) ''table'' = None"
    by (simp_all add: py_str_def)
  have 1: "fst (auto_detect_and_read demo_world ''empty.db'' [] initial_state)
     = Inl (Exn ValueError no_tables_message)"
    using sqlite_auto_detect [OF ext(1) l0, where kw = "[]"] by simp
  have 2: "fst (auto_detect_and_read demo_world ''app.db'' [(''table'', PyStr ''orders'')]
       initial_state)
     = fst (read_sqlite_table demo_world ''app.db'' ''orders'' [] initial_state)"
    using sqlite_auto_detect [OF ext(2) l1, where kw = "[(''table'', PyStr ''orders'')]"
        and t = "PyStr ''orders''"] k
      read_sqlite_table_result [of demo_world "''app.db''" "''orders''" "[]" _ initial_state]
    by simp
  have 3: "fst (auto_detect_and_read demo_world ''app.db'' [] initial_state)
     = fst (read_sqlite_table demo_world ''app.db'' ''users'' [] initial_state)"
    using sqlite_auto_detect [OF ext(2) l1, where kw = "[]" and first = "''users''"
        and others = "[''orders'']" and s' = initial_state] k
    by auto
  have 4: "fst (read_sqlite_table demo_world ''app.db'' ''users'' [] initial_state)
     = Inr (DataFrame users_table)"
    by (simp add: read_sqlite_table_def demo_world_def demo_sql_def fst_flow shape_of_def Let_def)
  show ?thesis using 1 2 3 4 by blast
qed

section \<open>BigQuery credentials\<close>






section \<open>Failures of the external loaders\<close>

lemmas made_defs = calls_made_def new_events_def flow_defs Let_def























section \<open>SQLite connections\<close>

text \<open>
  After a successful \<^verbatim>\<open>sqlite3.connect\<close> the three SQLite operations leave the
  \<^verbatim>\<open>with\<close> block through the connection's context manager, which ends the
  transaction (commit after a return, rollback after a raise); the connection itself
  is still open when the operation returns or raises.
\<close>

lemma with_connect_open:
  "w_sqlite3_connect w path = Inr () \<Longrightarrow>
   open_conns (snd (with_connect w path (call_ext c r) s)) = path # open_conns s"
  by (cases r) (simp_all add: with_connect_def call_ext_def emit_def)

lemma open_conns_except_print_raise:
  "open_conns (snd (except_print_raise line r)) = open_conns (snd r)"
  by (simp add: except_print_raise_def emit_def split: prod.splits sum.splits)

lemma open_conns_report_loaded:
  "open_conns (snd (and_then r report_loaded)) = open_conns (snd r)"
  by (simp add: and_then_def report_loaded_def emit_def split: prod.splits sum.splits)

lemma sqlite_connection_stays_open:
  "w_sqlite3_connect w path = Inr () \<Longrightarrow>
   open_conns (snd (read_sqlite_table w path table kw s)) = path # open_conns s
   \<and> open_conns (snd (read_sqlite_query w path query kw s)) = path # open_conns s
   \<and> open_conns (snd (list_sqlite_tables w path s)) = path # open_conns s"
  by (simp add: read_sqlite_table_def read_sqlite_query_def list_sqlite_tables_def Let_def
      open_conns_except_print_raise open_conns_report_loaded with_connect_open)
     (simp add: and_then_def with_connect_def call_ext_def emit_def split: sum.splits)

lemma sqlite_transaction_ended:
  "w_sqlite3_connect w path = Inr () \<Longrightarrow>
   new_events s (snd (with_connect w path (call_ext c r) s))
     = [Call (Sqlite3_connect path), Call c,
        (case r of Inl _ \<Rightarrow> Rollback path | Inr _ \<Rightarrow> Commit path)]"
  by (cases r) (simp_all add: with_connect_def call_ext_def emit_def new_events_def)

text \<open>
  C1 says that \<^verbatim>\<open>read_sqlite_table\<close>, \<^verbatim>\<open>read_sqlite_query\<close> and
  \<^verbatim>\<open>list_sqlite_tables\<close> release the connection they opened on every exit path. The
  code does not: on the database \<^verbatim>\<open>app.db\<close>, a query that fails and a query that
  succeeds both leave the connection open, and so do the other two operations.
\<close>

theorem sqlite_connection_left_open:
  "fst (read_sqlite_query demo_world ''app.db'' ''SELECT * FROM nope'' [] initial_state)
     = Inl (Exn OperationalError ''syntax error'')
   \<and> open_conns (snd (read_sqlite_query demo_world ''app.db'' ''SELECT * FROM nope'' []
        initial_state)) = [''app.db'']
   \<and> fst (read_sqlite_query demo_world ''app.db'' ''SELECT * FROM users'' [] initial_state)
     = Inr (DataFrame users_table)
   \<and> open_conns (snd (read_sqlite_query demo_world ''app.db'' ''SELECT * FROM users'' []
        initial_state)) = [''app.db'']
   \<and> open_conns (snd (read_sqlite_table demo_world ''app.db'' ''users'' [] initial_state))
     = [''app.db'']
   \<and> open_conns (snd (list_sqlite_tables demo_world ''app.db'' initial_state)) = [''app.db'']"
  by (simp add: read_sqlite_query_def read_sqlite_table_def list_sqlite_tables_def
      demo_world_def demo_sql_def initial_state_def flow_defs shape_of_def shape_def Let_def)

section \<open>The default sheet of read_excel\<close>

text \<open>
  \<^verbatim>\<open>read_excel\<close> hands \<open>sheet_name\<close> to the loader as it received it, also when
  it is \<open>PyNone\<close>, and its outcome is the loader's outcome for that argument.
\<close>

lemma read_excel_passes_sheet_name:
  "calls_made s (read_excel w path sheet_name kw s) = [Pd_read_excel path sheet_name kw]
   \<and> fst (read_excel w path sheet_name kw s)
       = (case w_read_excel w path sheet_name kw of
            Inl e \<Rightarrow> Inl e
          | Inr df \<Rightarrow> (case shape_of df of Inl e \<Rightarrow> Inl e | Inr _ \<Rightarrow> Inr df))"
  by (simp add: read_excel_def made_defs split: sum.splits prod.splits)

text \<open>
  C2 says that \<^verbatim>\<open>read_excel\<close> without a sheet name returns what the loader returns
  for its own default sheet. The code does not: on the workbook \<^verbatim>\<open>book.xlsx\<close> the
  loader is called with \<^verbatim>\<open>sheet_name=None\<close>, answers with a \<^verbatim>\<open>dict\<close> of all sheets,
  and \<^verbatim>\<open>read_excel\<close> raises AttributeError when it reads \<^verbatim>\<open>shape\<close> from it, while
  the loader's default sheet (position 0) is the table of users, which
  \<^verbatim>\<open>read_excel\<close> returns when that position is passed explicitly.
\<close>

theorem read_excel_sheet_name_omitted:
  "fst (read_excel demo_world ''book.xlsx'' PyNone [] initial_state)
     = Inl (Exn AttributeError (no_shape_message ''dict''))
   \<and> calls_made initial_state (read_excel demo_world ''book.xlsx'' PyNone [] initial_state)
     = [Pd_read_excel ''book.xlsx'' PyNone []]
   \<and> w_read_excel demo_world ''book.xlsx'' excel_default_sheet []
     = Inr (DataFrame users_table)
   \<and> fst (read_excel demo_world ''book.xlsx'' excel_default_sheet [] initial_state)
     = Inr (DataFrame users_table)"
  by (simp add: read_excel_def demo_world_def pandas_read_excel_def demo_books_def sheet_at_def
      excel_default_sheet_def initial_state_def truthy_val_def made_defs shape_of_def shape_def)

end
